theory Spec2Isabelle
  imports Complex_Main "HOL-Library.Sublist" "HOL-Library.Char_ord" "HOL-Library.List_Lexorder"
    "HOL-Library.AList"
begin

section \<open>JavaScript strings and arrays, as the sheets service uses them\<close>

text \<open>
  The service (the module \<^verbatim>\<open>sheetsService.js\<close>, printed in the second part of
  \<^verbatim>\<open>src/README.md\<close>) reads every sheet as an array of rows, each row an array of text
  cells. A cell is a \<^typ>\<open>string\<close>; a row is a list of cells; a grid is a list of rows whose
  first row is the header. Text is modelled as a list of 8-bit characters: the case
  conversions and \<^verbatim>\<open>trim\<close> below are the ASCII part of the JavaScript ones.
\<close>

type_synonym row = "string list"
type_synonym grid = "row list"

definition isUpper :: "char \<Rightarrow> bool" where
  "isUpper c = (65 \<le> (of_char c :: nat) \<and> (of_char c :: nat) \<le> 90)"

definition isLower :: "char \<Rightarrow> bool" where
  "isLower c = (97 \<le> (of_char c :: nat) \<and> (of_char c :: nat) \<le> 122)"

text \<open>An upper-case letter and its lower-case letter differ in bit 5 only (the value 32).\<close>

definition lowerChar :: "char \<Rightarrow> char" where
  "lowerChar c =
     (if isUpper c
      then (case c of Char b0 b1 b2 b3 b4 b5 b6 b7 \<Rightarrow> Char b0 b1 b2 b3 b4 True b6 b7)
      else c)"

definition upperChar :: "char \<Rightarrow> char" where
  "upperChar c =
     (if isLower c
      then (case c of Char b0 b1 b2 b3 b4 b5 b6 b7 \<Rightarrow> Char b0 b1 b2 b3 b4 False b6 b7)
      else c)"

definition toLowerCase :: "string \<Rightarrow> string" where
  "toLowerCase s = map lowerChar s"

definition toUpperCase :: "string \<Rightarrow> string" where
  "toUpperCase s = map upperChar s"

text \<open>White space removed by \<^verbatim>\<open>trim\<close>: tab, line feed, vertical tab, form feed, carriage
  return and space.\<close>

definition isWhiteSpace :: "char \<Rightarrow> bool" where
  "isWhiteSpace c = ((of_char c :: nat) \<in> {9, 10, 11, 12, 13, 32})"

definition trim :: "string \<Rightarrow> string" where
  "trim s = rev (dropWhile isWhiteSpace (rev (dropWhile isWhiteSpace s)))"

text \<open>\<^verbatim>\<open>hay.includes(needle)\<close>: the needle occurs in the hay as a contiguous run.\<close>

fun strIncludes :: "string \<Rightarrow> string \<Rightarrow> bool" where
  "strIncludes [] needle = (needle = [])"
| "strIncludes (c # cs) needle = (prefix needle (c # cs) \<or> strIncludes cs needle)"

text \<open>\<^verbatim>\<open>arr.findIndex(p)\<close>: the first index whose element satisfies \<open>p\<close>; \<open>None\<close> is the
  JavaScript result \<^verbatim>\<open>-1\<close>.\<close>

fun findIndex :: "('a \<Rightarrow> bool) \<Rightarrow> 'a list \<Rightarrow> nat option" where
  "findIndex p [] = None"
| "findIndex p (x # xs) = (if p x then Some 0 else map_option Suc (findIndex p xs))"

text \<open>\<^verbatim>\<open>str.indexOf('@')\<close>.\<close>

definition indexOf :: "string \<Rightarrow> char \<Rightarrow> nat option" where
  "indexOf s c = findIndex (\<lambda>x. x = c) s"

text \<open>\<^verbatim>\<open>row[idx]\<close>: the cell, or \<open>None\<close> (\<^verbatim>\<open>undefined\<close>) past the end of the row. The
  rows of a sheet are often shorter than its header: trailing empty cells are not sent.\<close>

definition cell :: "row \<Rightarrow> nat \<Rightarrow> string option" where
  "cell r idx = (if idx < length r then Some (r ! idx) else None)"

text \<open>\<^verbatim>\<open>row[idx]?.toString().trim()\<close>.\<close>

definition cellTrim :: "row \<Rightarrow> nat \<Rightarrow> string option" where
  "cellTrim r idx = map_option trim (cell r idx)"

text \<open>\<^verbatim>\<open>row[idx]?.toString().trim() || ''\<close>.\<close>

definition cellTrimOrEmpty :: "row \<Rightarrow> nat \<Rightarrow> string" where
  "cellTrimOrEmpty r idx = (case cellTrim r idx of None \<Rightarrow> [] | Some s \<Rightarrow> s)"

text \<open>\<^verbatim>\<open>row[idx] || ''\<close>.\<close>

definition cellOrEmpty :: "row \<Rightarrow> nat \<Rightarrow> string" where
  "cellOrEmpty r idx = (case cell r idx of None \<Rightarrow> [] | Some s \<Rightarrow> s)"

section \<open>The spreadsheet\<close>

text \<open>
  \<^verbatim>\<open>getSheetNames\<close> returns the titles of the sheets or throws an error with a message
  (\<open>Inl\<close>); \<^verbatim>\<open>readSheet\<close> returns the rows of a named sheet, and the empty grid when the
  sheet cannot be read (it catches every error). Both are the answers of the spreadsheet
  service, so a spreadsheet is the pair of them.
\<close>

record spreadsheet =
  titles :: "string + string list"
  rowsOf :: "string \<Rightarrow> grid"

definition getSheetNames :: "spreadsheet \<Rightarrow> string + string list" where
  "getSheetNames sheets = titles sheets"

definition readSheet :: "spreadsheet \<Rightarrow> string \<Rightarrow> grid" where
  "readSheet sheets sheetName = rowsOf sheets sheetName"

section \<open>Header columns\<close>

text \<open>The predicates that the service passes to \<^verbatim>\<open>header.findIndex\<close>.\<close>

definition isOpenGradSchoolCode :: "string \<Rightarrow> bool" where
  "isOpenGradSchoolCode h =
     (let lower = toLowerCase h
      in strIncludes lower ''opengrad'' \<and> strIncludes lower ''school'' \<and> strIncludes lower ''code'')"

definition isSchool :: "string \<Rightarrow> bool" where
  "isSchool h = strIncludes (toLowerCase h) ''school''"

definition isStudentIdHeader :: "string \<Rightarrow> bool" where
  "isStudentIdHeader h =
     (let lower = toLowerCase h
      in lower = ''username'' \<or> lower = ''emis_id'' \<or> strIncludes lower ''student id'')"

definition isStudentNotSchool :: "string \<Rightarrow> bool" where
  "isStudentNotSchool h =
     (strIncludes (toLowerCase h) ''student'' \<and> \<not> strIncludes (toLowerCase h) ''school'')"

definition isUserName :: "string \<Rightarrow> bool" where
  "isUserName h = (toLowerCase h = ''username'')"

definition isSchoolName :: "string \<Rightarrow> bool" where
  "isSchoolName h =
     (let lower = toLowerCase h in strIncludes lower ''school'' \<and> strIncludes lower ''name'')"

definition isUdsieCode :: "string \<Rightarrow> bool" where
  "isUdsieCode h =
     (let lower = toLowerCase h
      in strIncludes lower ''udsie'' \<or>
         (strIncludes lower ''school'' \<and> strIncludes lower ''code'' \<and>
          \<not> strIncludes lower ''opengrad''))"

definition isEmisId :: "string \<Rightarrow> bool" where
  "isEmisId h = (toLowerCase h = ''emis_id'' \<or> strIncludes (toLowerCase h) ''emis'')"

definition isLearnerDetails :: "string \<Rightarrow> bool" where
  "isLearnerDetails h =
     (let lower = toLowerCase h in strIncludes lower ''learner'' \<and> strIncludes lower ''details'')"

definition isStudent :: "string \<Rightarrow> bool" where
  "isStudent h = strIncludes (toLowerCase h) ''student''"

definition isStudentName :: "string \<Rightarrow> bool" where
  "isStudentName h =
     (let lower = toLowerCase h
      in strIncludes lower ''student'' \<and> strIncludes lower ''name'' \<and>
         \<not> strIncludes lower ''school'')"

definition isScoreHeader :: "string \<Rightarrow> bool" where
  "isScoreHeader col =
     (let lower = toLowerCase col
      in strIncludes lower ''score'' \<or> strIncludes lower ''mark'' \<or> strIncludes lower ''total'')"

text \<open>The school column of the Mapping sheet: the OpenGrad school code column, and any
  column with "school" when there is none.\<close>

definition schoolIdIndexOf :: "row \<Rightarrow> nat option" where
  "schoolIdIndexOf header =
     (case findIndex isOpenGradSchoolCode header of
        Some i \<Rightarrow> Some i
      | None \<Rightarrow> findIndex isSchool header)"

text \<open>The student column of the Mapping sheet.\<close>

definition studentIdIndexOf :: "row \<Rightarrow> nat option" where
  "studentIdIndexOf header =
     (case findIndex isStudentIdHeader header of
        Some i \<Rightarrow> Some i
      | None \<Rightarrow> findIndex isStudentNotSchool header)"

section \<open>extractUsernameFromLearnerDetails\<close>

text \<open>
  The argument is a cell that may be absent (\<open>None\<close>); the result \<open>None\<close> is the
  JavaScript \<^verbatim>\<open>null\<close>. \<^verbatim>\<open>!learnerDetails\<close> holds of an absent cell and of the empty
  string.
\<close>

definition extractUsernameFromLearnerDetails :: "string option \<Rightarrow> string option" where
  "extractUsernameFromLearnerDetails learnerDetails =
     (case learnerDetails of
        None \<Rightarrow> None
      | Some raw \<Rightarrow>
          if raw = [] then None
          else (let str = trim raw
                in case indexOf str (CHR ''@'') of
                     Some atIndex \<Rightarrow> Some (take atIndex str)
                   | None \<Rightarrow> Some str))"

section \<open>buildStudentLookupMap\<close>

record mappingData =
  userName :: string
  schoolName :: string
  schoolCode :: string
  udsieCode :: string
  emisId :: string

text \<open>\<^verbatim>\<open>index !== -1 ? (row[index]?.toString().trim() || '') : ''\<close>.\<close>

definition optionalColumn :: "nat option \<Rightarrow> row \<Rightarrow> string" where
  "optionalColumn index r = (case index of None \<Rightarrow> [] | Some i \<Rightarrow> cellTrimOrEmpty r i)"

text \<open>One turn of the loop over the data rows of the Mapping sheet: an empty row and a
  row with no user name are skipped, any other row sets (or overwrites) its entry.\<close>

definition lookupStep ::
  "nat \<Rightarrow> nat option \<Rightarrow> nat option \<Rightarrow> nat option \<Rightarrow> nat option \<Rightarrow>
   (string \<rightharpoonup> mappingData) \<Rightarrow> row \<Rightarrow> (string \<rightharpoonup> mappingData)" where
  "lookupStep userNameIndex schoolNameIndex schoolCodeIndex udsieCodeIndex emisIdIndex lookupMap r =
     (if r = [] then lookupMap
      else case cellTrim r userNameIndex of
             None \<Rightarrow> lookupMap
           | Some u \<Rightarrow>
               if u = [] then lookupMap
               else lookupMap(u \<mapsto>
                 \<lparr>userName = u,
                  schoolName = optionalColumn schoolNameIndex r,
                  schoolCode = optionalColumn schoolCodeIndex r,
                  udsieCode = optionalColumn udsieCodeIndex r,
                  emisId = optionalColumn emisIdIndex r\<rparr>))"

definition buildStudentLookupMap :: "spreadsheet \<Rightarrow> (string \<rightharpoonup> mappingData)" where
  "buildStudentLookupMap sheets =
     (case readSheet sheets ''Mapping'' of
        [] \<Rightarrow> Map.empty
      | header # dataRows \<Rightarrow>
          (case findIndex isUserName header of
             None \<Rightarrow> Map.empty
           | Some userNameIndex \<Rightarrow>
               foldl (lookupStep userNameIndex (findIndex isSchoolName header)
                        (findIndex isOpenGradSchoolCode header) (findIndex isUdsieCode header)
                        (findIndex isEmisId header))
                 Map.empty dataRows))"

section \<open>findStudentById and findStudentInMaster\<close>

text \<open>The student record holds the cells of the matched row as they are (not trimmed). The
  student cell of a matched row exists; its school cell may be absent.\<close>

record student =
  studentId :: string
  schoolId :: "string option"

text \<open>The loop of \<^verbatim>\<open>findStudentById\<close> over the data rows: the first row whose trimmed
  student cell is the requested id.\<close>

fun scanById :: "nat \<Rightarrow> nat \<Rightarrow> string \<Rightarrow> row list \<Rightarrow> student option" where
  "scanById schoolIdIndex studentIdIndex sid [] = None"
| "scanById schoolIdIndex studentIdIndex sid (r # rs) =
     (case cell r studentIdIndex of
        Some c \<Rightarrow>
          if trim c = sid then Some \<lparr>studentId = c, schoolId = cell r schoolIdIndex\<rparr>
          else scanById schoolIdIndex studentIdIndex sid rs
      | None \<Rightarrow> scanById schoolIdIndex studentIdIndex sid rs)"

definition findStudentById :: "spreadsheet \<Rightarrow> string \<Rightarrow> student option" where
  "findStudentById sheets sid =
     (case readSheet sheets ''Mapping'' of
        [] \<Rightarrow> None
      | header # dataRows \<Rightarrow>
          (case (schoolIdIndexOf header, studentIdIndexOf header) of
             (Some schoolIdIndex, Some studentIdIndex) \<Rightarrow>
               scanById schoolIdIndex studentIdIndex sid dataRows
           | _ \<Rightarrow> None))"

text \<open>The loop of \<^verbatim>\<open>findStudentInMaster\<close>: the first row whose trimmed student cell is the
  requested student and whose trimmed school cell is the requested school.\<close>

fun scanInMaster :: "nat \<Rightarrow> nat \<Rightarrow> string \<Rightarrow> string \<Rightarrow> row list \<Rightarrow> student option" where
  "scanInMaster schoolIdIndex studentIdIndex sid sch [] = None"
| "scanInMaster schoolIdIndex studentIdIndex sid sch (r # rs) =
     (case cell r studentIdIndex of
        Some c \<Rightarrow>
          if trim c = sid \<and> cellTrim r schoolIdIndex = Some sch
          then Some \<lparr>studentId = c, schoolId = cell r schoolIdIndex\<rparr>
          else scanInMaster schoolIdIndex studentIdIndex sid sch rs
      | None \<Rightarrow> scanInMaster schoolIdIndex studentIdIndex sid sch rs)"

definition findStudentInMaster :: "spreadsheet \<Rightarrow> string \<Rightarrow> string \<Rightarrow> student option" where
  "findStudentInMaster sheets sid sch =
     (case readSheet sheets ''Mapping'' of
        [] \<Rightarrow> None
      | header # dataRows \<Rightarrow>
          (case (schoolIdIndexOf header, studentIdIndexOf header) of
             (Some schoolIdIndex, Some studentIdIndex) \<Rightarrow>
               scanInMaster schoolIdIndex studentIdIndex sid sch dataRows
           | _ \<Rightarrow> None))"

text \<open>The choice that \<^verbatim>\<open>getStudentTests\<close> makes between the two: a school id that is
  absent or empty is no school id.\<close>

definition findInMaster :: "spreadsheet \<Rightarrow> string \<Rightarrow> string option \<Rightarrow> student option" where
  "findInMaster sheets sid sch =
     (case sch of
        None \<Rightarrow> findStudentById sheets sid
      | Some s \<Rightarrow> if s = [] then findStudentById sheets sid else findStudentInMaster sheets sid s)"

section \<open>findStudentInTestSheet\<close>

record enrichment =
  enrichedSchoolName :: string
  openGradSchoolCode :: string
  enrichedUdsieCode :: string
  enrichedEmisId :: string

datatype fieldValue = Text string | Enriched enrichment

text \<open>The object \<^verbatim>\<open>studentData\<close>: its keys in the order they were first set, each with its
  last value (a header that occurs twice keeps the cell of its last column).\<close>

type_synonym studentData = "(string \<times> fieldValue) list"

text \<open>\<^verbatim>\<open>header.forEach((col, idx) => { studentData[col] = row[idx] || ''; })\<close>.\<close>

definition rowFields :: "row \<Rightarrow> row \<Rightarrow> studentData" where
  "rowFields header r =
     foldl (\<lambda>studentData (col, idx). AList.update col (Text (cellOrEmpty r idx)) studentData)
       [] (zip header [0 ..< length header])"

definition enrichFields ::
  "(string \<rightharpoonup> mappingData) \<Rightarrow> string option \<Rightarrow> studentData \<Rightarrow> studentData" where
  "enrichFields lookupMap user studentData =
     (case user of
        None \<Rightarrow> studentData
      | Some u \<Rightarrow>
          if u = [] then studentData
          else (case lookupMap u of
                  None \<Rightarrow> studentData
                | Some m \<Rightarrow>
                    AList.update ''_enriched''
                      (Enriched \<lparr>enrichedSchoolName = schoolName m,
                                 openGradSchoolCode = schoolCode m,
                                 enrichedUdsieCode = udsieCode m,
                                 enrichedEmisId = emisId m\<rparr>)
                      studentData))"

text \<open>The cell a row is matched on, and the user name taken from it. With a learner details
  column it is that cell, trimmed, and the part before its \<open>@\<close>; otherwise the cell of the
  student column, trimmed, is both. \<^verbatim>\<open>row[-1]\<close> is \<^verbatim>\<open>undefined\<close>.\<close>

definition rowIdentity :: "nat option \<Rightarrow> nat option \<Rightarrow> row \<Rightarrow> string option \<times> string option" where
  "rowIdentity learnerDetailsIndex studentIdIndex r =
     (case learnerDetailsIndex of
        Some li \<Rightarrow>
          (let learnerDetails = cellTrim r li
           in (learnerDetails, extractUsernameFromLearnerDetails learnerDetails))
      | None \<Rightarrow>
          (let rowStudentId = (case studentIdIndex of Some si \<Rightarrow> cellTrim r si | None \<Rightarrow> None)
           in (rowStudentId, rowStudentId)))"

text \<open>\<^verbatim>\<open>rowStudentId && (rowStudentId === studentId || rowStudentId.includes(studentId) ||
  userName === studentId)\<close>.\<close>

definition matches :: "string option \<Rightarrow> string option \<Rightarrow> string \<Rightarrow> bool" where
  "matches rowStudentId user sid =
     (case rowStudentId of
        None \<Rightarrow> False
      | Some rid \<Rightarrow> rid \<noteq> [] \<and> (rid = sid \<or> strIncludes rid sid \<or> user = Some sid))"

fun scanTestSheet ::
  "row \<Rightarrow> nat option \<Rightarrow> nat option \<Rightarrow> (string \<rightharpoonup> mappingData) \<Rightarrow> string \<Rightarrow> row list \<Rightarrow>
   studentData option" where
  "scanTestSheet header learnerDetailsIndex studentIdIndex lookupMap sid [] = None"
| "scanTestSheet header learnerDetailsIndex studentIdIndex lookupMap sid (r # rs) =
     (case rowIdentity learnerDetailsIndex studentIdIndex r of
        (rowStudentId, user) \<Rightarrow>
          if matches rowStudentId user sid
          then Some (enrichFields lookupMap user (rowFields header r))
          else scanTestSheet header learnerDetailsIndex studentIdIndex lookupMap sid rs)"

definition findStudentInTestSheet ::
  "spreadsheet \<Rightarrow> string \<Rightarrow> string \<Rightarrow> (string \<rightharpoonup> mappingData) option \<Rightarrow> studentData option" where
  "findStudentInTestSheet sheets sid testSheetName studentLookupMap =
     (case readSheet sheets testSheetName of
        [] \<Rightarrow> None
      | header # dataRows \<Rightarrow>
          (let learnerDetailsIndex = findIndex isLearnerDetails header;
               studentIdIndex =
                 (if learnerDetailsIndex = None then findIndex isStudent header else None)
           in if learnerDetailsIndex = None \<and> studentIdIndex = None then None
              else scanTestSheet header learnerDetailsIndex studentIdIndex
                     (case studentLookupMap of
                        None \<Rightarrow> buildStudentLookupMap sheets
                      | Some m \<Rightarrow> m)
                     sid dataRows))"

section \<open>getStudentTests\<close>

record testEntry =
  name :: string
  status :: string
  hasData :: bool

record studentTests =
  error :: "string option"
  foundStudent :: "student option"
  tests :: "testEntry list"

definition isTestSheet :: "string \<Rightarrow> bool" where
  "isTestSheet n = (toLowerCase n \<noteq> ''mapping'' \<and> toLowerCase n \<noteq> ''config'')"

text \<open>The loop over the test sheets: one entry is pushed for every sheet.\<close>

fun checkAttendance :: "spreadsheet \<Rightarrow> string \<Rightarrow> string list \<Rightarrow> testEntry list" where
  "checkAttendance sheets sid [] = []"
| "checkAttendance sheets sid (testSheet # rest) =
     (case findStudentInTestSheet sheets sid testSheet None of
        Some studentData \<Rightarrow> \<lparr>name = testSheet, status = ''Attended'', hasData = True\<rparr>
      | None \<Rightarrow> \<lparr>name = testSheet, status = ''Absent'', hasData = False\<rparr>)
     # checkAttendance sheets sid rest"

text \<open>An error thrown by \<^verbatim>\<open>getSheetNames\<close> is not caught here: it is the \<open>Inl\<close> result.\<close>

definition getStudentTests ::
  "spreadsheet \<Rightarrow> string \<Rightarrow> string option \<Rightarrow> string + studentTests" where
  "getStudentTests sheets sid sch =
     (case findInMaster sheets sid sch of
        None \<Rightarrow>
          Inr \<lparr>error = Some (if sch = None \<or> sch = Some [] then ''Student not found''
                             else ''Student not found or school ID mismatch''),
               foundStudent = None, tests = []\<rparr>
      | Some st \<Rightarrow>
          (case getSheetNames sheets of
             Inl message \<Rightarrow> Inl message
           | Inr allSheets \<Rightarrow>
               Inr \<lparr>error = None, foundStudent = Some st,
                    tests = checkAttendance sheets sid (filter isTestSheet allSheets)\<rparr>))"

section \<open>enrichTestSheet\<close>

text \<open>\<^verbatim>\<open>if (!enrichedHeader.includes(col)) enrichedHeader.push(col)\<close>.\<close>

definition pushIfAbsent :: "string \<Rightarrow> row \<Rightarrow> row" where
  "pushIfAbsent col enrichedHeader =
     (if col \<in> set enrichedHeader then enrichedHeader else enrichedHeader @ [col])"

definition enrichHeader :: "row \<Rightarrow> row" where
  "enrichHeader header =
     pushIfAbsent ''EMIS ID'' (pushIfAbsent ''UDSIE Code''
       (pushIfAbsent ''OpenGrad School Code'' (pushIfAbsent ''School Name'' header)))"

definition enrichRow :: "nat \<Rightarrow> (string \<rightharpoonup> mappingData) \<Rightarrow> row \<Rightarrow> row" where
  "enrichRow learnerDetailsIndex lookupMap r =
     (case extractUsernameFromLearnerDetails (Some (cellTrimOrEmpty r learnerDetailsIndex)) of
        None \<Rightarrow> r @ [[], [], [], []]
      | Some u \<Rightarrow>
          if u = [] then r @ [[], [], [], []]
          else (case lookupMap u of
                  None \<Rightarrow> r @ [[], [], [], []]
                | Some m \<Rightarrow> r @ [schoolName m, schoolCode m, udsieCode m, emisId m]))"

definition enrichTestSheet :: "spreadsheet \<Rightarrow> string \<Rightarrow> grid" where
  "enrichTestSheet sheets testSheetName =
     (case readSheet sheets testSheetName of
        [] \<Rightarrow> []
      | header # dataRows \<Rightarrow>
          (case findIndex isLearnerDetails header of
             None \<Rightarrow> header # dataRows
           | Some learnerDetailsIndex \<Rightarrow>
               enrichHeader header #
               map (enrichRow learnerDetailsIndex (buildStudentLookupMap sheets)) dataRows))"

section \<open>Numbers\<close>

text \<open>
  A JavaScript number is modelled by the exact rational value it stands for: the text of a
  cell is read as the decimal numeral at its start, and sums, quotients and
  \<^verbatim>\<open>Math.round\<close> are exact. The rounding of double precision and the values
  \<^verbatim>\<open>Infinity\<close> and \<^verbatim>\<open>NaN\<close> are not part of the model; \<open>None\<close> stands for the
  \<^verbatim>\<open>NaN\<close> that \<^verbatim>\<open>parseFloat\<close> returns for a text with no numeral at its start.
\<close>

definition isDigit :: "char \<Rightarrow> bool" where
  "isDigit c = (48 \<le> (of_char c :: nat) \<and> (of_char c :: nat) \<le> 57)"

definition digitsValue :: "string \<Rightarrow> nat" where
  "digitsValue ds = foldl (\<lambda>n c. 10 * n + ((of_char c :: nat) - 48)) 0 ds"

definition splitSign :: "string \<Rightarrow> bool \<times> string" where
  "splitSign s =
     (case s of
        [] \<Rightarrow> (False, [])
      | c # cs \<Rightarrow>
          if c = CHR ''-'' then (True, cs)
          else if c = CHR ''+'' then (False, cs)
          else (False, s))"

text \<open>The exponent part counts only when a digit follows the \<open>e\<close> and its sign.\<close>

definition exponentOf :: "string \<Rightarrow> int" where
  "exponentOf s =
     (case s of
        [] \<Rightarrow> 0
      | c # cs \<Rightarrow>
          if c = CHR ''e'' \<or> c = CHR ''E''
          then (case splitSign cs of
                  (neg, ds) \<Rightarrow>
                    (let e = takeWhile isDigit ds
                     in if e = [] then 0
                        else if neg then - int (digitsValue e) else int (digitsValue e)))
          else 0)"

definition parseFloat :: "string \<Rightarrow> rat option" where
  "parseFloat s =
     (case splitSign (dropWhile isWhiteSpace s) of
        (neg, body) \<Rightarrow>
          (let intPart = takeWhile isDigit body;
               afterInt = dropWhile isDigit body;
               hasPoint = (case afterInt of [] \<Rightarrow> False | c # cs \<Rightarrow> c = CHR ''.'');
               fracPart = (if hasPoint then takeWhile isDigit (tl afterInt) else []);
               afterFrac = (if hasPoint then dropWhile isDigit (tl afterInt) else afterInt)
           in if intPart = [] \<and> fracPart = [] then None
              else (let mantissa =
                          of_nat (digitsValue intPart) +
                          of_nat (digitsValue fracPart) / 10 ^ length fracPart;
                        e = exponentOf afterFrac;
                        magnitude =
                          (if 0 \<le> e then mantissa * 10 ^ nat e else mantissa / 10 ^ nat (- e))
                    in Some (if neg then - magnitude else magnitude))))"

text \<open>\<^verbatim>\<open>parseFloat(row[idx]) || 0\<close>: an absent cell and a cell with no numeral count 0.\<close>

definition numberOrZero :: "string option \<Rightarrow> rat" where
  "numberOrZero c =
     (case c of
        None \<Rightarrow> 0
      | Some s \<Rightarrow> (case parseFloat s of None \<Rightarrow> 0 | Some v \<Rightarrow> v))"

text \<open>\<^verbatim>\<open>Math.round(x * 100) / 100\<close>; \<^verbatim>\<open>Math.round\<close> rounds a half upwards.\<close>

definition round2 :: "rat \<Rightarrow> rat" where
  "round2 x = of_int \<lfloor>x * 100 + 1 / 2\<rfloor> / 100"

section \<open>getStudentsBySchool\<close>

fun collectStudents :: "nat \<Rightarrow> nat \<Rightarrow> string \<Rightarrow> row list \<Rightarrow> student list" where
  "collectStudents schoolIdIndex studentIdIndex searchSchoolId [] = []"
| "collectStudents schoolIdIndex studentIdIndex searchSchoolId (r # rs) =
     (if r = [] then collectStudents schoolIdIndex studentIdIndex searchSchoolId rs
      else if toUpperCase (cellTrimOrEmpty r schoolIdIndex) = searchSchoolId \<and>
              cellTrimOrEmpty r studentIdIndex \<noteq> []
      then \<lparr>studentId = cellOrEmpty r studentIdIndex, schoolId = cell r schoolIdIndex\<rparr>
           # collectStudents schoolIdIndex studentIdIndex searchSchoolId rs
      else collectStudents schoolIdIndex studentIdIndex searchSchoolId rs)"

definition getStudentsBySchool :: "spreadsheet \<Rightarrow> string \<Rightarrow> student list" where
  "getStudentsBySchool sheets sch =
     (case readSheet sheets ''Mapping'' of
        [] \<Rightarrow> []
      | header # dataRows \<Rightarrow>
          (case (schoolIdIndexOf header, studentIdIndexOf header) of
             (Some schoolIdIndex, Some studentIdIndex) \<Rightarrow>
               collectStudents schoolIdIndex studentIdIndex (toUpperCase (trim sch)) dataRows
           | _ \<Rightarrow> []))"

section \<open>getSchoolStats\<close>

subsection \<open>The result for a school with no students\<close>

text \<open>The trimmed, non-empty cells of the school column.\<close>

fun schoolIdCells :: "nat \<Rightarrow> row list \<Rightarrow> string list" where
  "schoolIdCells schoolIdIndex [] = []"
| "schoolIdCells schoolIdIndex (r # rs) =
     (case cell r schoolIdIndex of
        None \<Rightarrow> schoolIdCells schoolIdIndex rs
      | Some c \<Rightarrow>
          if c \<noteq> [] \<and> trim c \<noteq> [] then trim c # schoolIdCells schoolIdIndex rs
          else schoolIdCells schoolIdIndex rs)"

text \<open>\<^verbatim>\<open>Array.from(schoolIdSet).sort().slice(0, 10)\<close>: the distinct identifiers in the order
  of their characters' codes, the first ten of them.\<close>

definition availableSchoolIds :: "spreadsheet \<Rightarrow> string list" where
  "availableSchoolIds sheets =
     (case readSheet sheets ''Mapping'' of
        [] \<Rightarrow> []
      | header # dataRows \<Rightarrow>
          (case schoolIdIndexOf header of
             None \<Rightarrow> []
           | Some schoolIdIndex \<Rightarrow> take 10 (sort (remdups (schoolIdCells schoolIdIndex dataRows)))))"

fun joinWith :: "string \<Rightarrow> string list \<Rightarrow> string" where
  "joinWith sep [] = []"
| "joinWith sep [x] = x"
| "joinWith sep (x # y # ys) = x @ sep @ joinWith sep (y # ys)"

definition notFoundError :: "string \<Rightarrow> string" where
  "notFoundError sch =
     ''School '' @ [CHR 0x22] @ sch @ [CHR 0x22] @
     '' not found or has no students in the Mapping sheet''"

definition notFoundDetails :: "string list \<Rightarrow> string" where
  "notFoundDetails ids =
     ''Verify the School ID is correct and exists in the Mapping sheet of your Google Spreadsheet.''
     @ (if ids \<noteq> [] then '' Available school IDs (first 10): '' @ joinWith '', '' ids else [])"

subsection \<open>The user names of the school\<close>

text \<open>One turn of the loop that fills \<^verbatim>\<open>studentUserNames\<close> (a set, here the list of its
  members) and \<^verbatim>\<open>studentNameToUserName\<close> (a map).\<close>

definition userNameStep ::
  "nat \<Rightarrow> nat \<Rightarrow> nat \<Rightarrow> string \<Rightarrow> string list \<times> (string \<rightharpoonup> string) \<Rightarrow> row \<Rightarrow>
   string list \<times> (string \<rightharpoonup> string)" where
  "userNameStep userNameIndex studentNameIndex schoolCodeIndex searchSchoolId acc r =
     (case acc of
        (studentUserNames, studentNameToUserName) \<Rightarrow>
          if r = [] then acc
          else (let rowSchoolId = toUpperCase (cellTrimOrEmpty r schoolCodeIndex);
                    rowUserName = cellTrimOrEmpty r userNameIndex;
                    rowStudentName = cellTrimOrEmpty r studentNameIndex
                in if rowSchoolId = searchSchoolId \<and> rowUserName \<noteq> []
                   then (List.insert rowUserName studentUserNames,
                         if rowStudentName \<noteq> []
                         then studentNameToUserName(rowStudentName \<mapsto> rowUserName)
                         else studentNameToUserName)
                   else acc))"

definition schoolUserNames :: "row \<Rightarrow> row list \<Rightarrow> string \<Rightarrow> string list \<times> (string \<rightharpoonup> string)" where
  "schoolUserNames header dataRows sch =
     (case (findIndex isUserName header, findIndex isStudentName header,
            findIndex isOpenGradSchoolCode header) of
        (Some userNameIndex, Some studentNameIndex, Some schoolCodeIndex) \<Rightarrow>
          foldl (userNameStep userNameIndex studentNameIndex schoolCodeIndex
                   (toUpperCase (trim sch)))
            ([], Map.empty) dataRows
      | _ \<Rightarrow> ([], Map.empty))"

subsection \<open>One test sheet\<close>

text \<open>\<^verbatim>\<open>header.map((col, idx) => ({ col, idx })).filter(...).map(({ idx }) => idx)\<close>.\<close>

definition scoreIndices :: "row \<Rightarrow> nat list" where
  "scoreIndices header =
     map snd (filter (\<lambda>(col, idx). isScoreHeader col) (zip header [0 ..< length header]))"

text \<open>The score of a row: \<^verbatim>\<open>scoreIndices.reduce((sum, idx) => sum + (parseFloat(row[idx])
  || 0), 0)\<close>, and 0 when there is no score column.\<close>

definition rowScore :: "nat list \<Rightarrow> row \<Rightarrow> rat" where
  "rowScore indices r =
     (if indices \<noteq> [] then foldl (\<lambda>sum idx. sum + numberOrZero (cell r idx)) 0 indices else 0)"

text \<open>
  Whether a row of the test sheet is a student of the school, and the identifier
  \<^verbatim>\<open>rowUserName || rowStudentId\<close> under which its score is kept: \<open>None\<close> when
  \<^verbatim>\<open>matched\<close> is false, \<open>Some\<close> of the identifier when it is true.
  With a learner details column a row is matched when the user name taken from it is not
  empty and is one of the school's user names, and its identifier is that user name.
  Otherwise the row is matched when its trimmed student cell is one of the school's student
  identifiers (\<^verbatim>\<open>rowUserName\<close> stays \<^verbatim>\<open>null\<close>, the identifier is the cell), or when
  the cell is a student name with a user name of the school (the identifier is that user
  name).
\<close>

definition matchedStudentId ::
  "nat option \<Rightarrow> nat option \<Rightarrow> string list \<Rightarrow> string list \<Rightarrow> (string \<rightharpoonup> string) \<Rightarrow> row \<Rightarrow>
   string option" where
  "matchedStudentId learnerDetailsIndex studentIdIndex studentIds studentUserNames
       studentNameToUserName r =
     (case learnerDetailsIndex of
        Some li \<Rightarrow>
          (case extractUsernameFromLearnerDetails (Some (cellTrimOrEmpty r li)) of
             None \<Rightarrow> None
           | Some rowUserName \<Rightarrow>
               if rowUserName \<noteq> [] \<and> rowUserName \<in> set studentUserNames
               then Some rowUserName else None)
      | None \<Rightarrow>
          (case studentIdIndex of
             None \<Rightarrow> None
           | Some si \<Rightarrow>
               (case cellTrim r si of
                  None \<Rightarrow> None
                | Some rowStudentId \<Rightarrow>
                    if rowStudentId \<in> set studentIds then Some rowStudentId
                    else if rowStudentId = [] then None
                    else (case studentNameToUserName rowStudentId of
                            None \<Rightarrow> None
                          | Some u \<Rightarrow>
                              if u \<noteq> [] \<and> u \<in> set studentUserNames then Some u else None))))"

record performer =
  performerId :: string
  score :: rat

record tally =
  attendedCount :: nat
  totalScore :: rat
  scoreCount :: nat
  studentScores :: "performer list"

definition emptyTally :: tally where
  "emptyTally = \<lparr>attendedCount = 0, totalScore = 0, scoreCount = 0, studentScores = []\<rparr>"

text \<open>One turn of the loop over the data rows of a test sheet.\<close>

definition tallyRow ::
  "nat option \<Rightarrow> nat option \<Rightarrow> string list \<Rightarrow> string list \<Rightarrow> (string \<rightharpoonup> string) \<Rightarrow> nat list \<Rightarrow>
   tally \<Rightarrow> row \<Rightarrow> tally" where
  "tallyRow learnerDetailsIndex studentIdIndex studentIds studentUserNames studentNameToUserName
       indices t r =
     (case matchedStudentId learnerDetailsIndex studentIdIndex studentIds studentUserNames
             studentNameToUserName r of
        None \<Rightarrow> t
      | Some sid \<Rightarrow>
          (let s = rowScore indices r
           in if 0 < s
              then \<lparr>attendedCount = attendedCount t + 1,
                    totalScore = totalScore t + s,
                    scoreCount = scoreCount t + 1,
                    studentScores = studentScores t @ [\<lparr>performerId = sid, score = s\<rparr>]\<rparr>
              else t\<lparr>attendedCount := attendedCount t + 1\<rparr>))"

text \<open>\<^verbatim>\<open>studentScores.sort((a, b) => b.score - a.score)\<close>: a stable sort, the highest
  score first.\<close>

definition sortByScore :: "performer list \<Rightarrow> performer list" where
  "sortByScore ps = sort_key (\<lambda>p. - score p) ps"

text \<open>The student of the school with the same trimmed identifier gives the identifier that
  is shown; the identifier of the score is shown when there is none.\<close>

definition resolvePerformer :: "student list \<Rightarrow> performer \<Rightarrow> performer" where
  "resolvePerformer students s =
     (case find (\<lambda>st. trim (studentId st) = trim (performerId s)) students of
        None \<Rightarrow> \<lparr>performerId = performerId s, score = score s\<rparr>
      | Some st \<Rightarrow>
          \<lparr>performerId = (if studentId st \<noteq> [] then studentId st else performerId s),
           score = score s\<rparr>)"

record testStat =
  testName :: string
  totalStudents :: nat
  attended :: nat
  attendancePercent :: rat
  avgScore :: rat
  topPerformers :: "performer list"

definition statOfTally :: "string \<Rightarrow> student list \<Rightarrow> tally \<Rightarrow> testStat" where
  "statOfTally testSheet students t =
     \<lparr>testName = testSheet,
      totalStudents = length students,
      attended = attendedCount t,
      attendancePercent =
        round2 (of_nat (attendedCount t) / of_nat (length students) * 100),
      avgScore =
        round2 (if 0 < scoreCount t then totalScore t / of_nat (scoreCount t) else 0),
      topPerformers = map (resolvePerformer students) (take 5 (sortByScore (studentScores t)))\<rparr>"

text \<open>The tally of a test sheet with an identifier column; \<open>None\<close> for a sheet that is
  skipped (an empty sheet, or a header with neither a learner details nor a student
  column).\<close>

definition sheetTally ::
  "spreadsheet \<Rightarrow> string list \<Rightarrow> string list \<Rightarrow> (string \<rightharpoonup> string) \<Rightarrow> string \<Rightarrow> tally option" where
  "sheetTally sheets studentIds studentUserNames studentNameToUserName testSheet =
     (case readSheet sheets testSheet of
        [] \<Rightarrow> None
      | header # dataRows \<Rightarrow>
          (let learnerDetailsIndex = findIndex isLearnerDetails header;
               studentIdIndex =
                 (if learnerDetailsIndex = None then findIndex isStudent header else None)
           in if learnerDetailsIndex = None \<and> studentIdIndex = None then None
              else Some (foldl (tallyRow learnerDetailsIndex studentIdIndex studentIds
                                  studentUserNames studentNameToUserName (scoreIndices header))
                           emptyTally dataRows)))"

text \<open>The loop over the test sheets: a statistic is pushed for every sheet that is not
  skipped.\<close>

fun collectStats ::
  "spreadsheet \<Rightarrow> student list \<Rightarrow> string list \<Rightarrow> (string \<rightharpoonup> string) \<Rightarrow> string list \<Rightarrow>
   testStat list" where
  "collectStats sheets students studentUserNames studentNameToUserName [] = []"
| "collectStats sheets students studentUserNames studentNameToUserName (testSheet # rest) =
     (case sheetTally sheets (map (\<lambda>s. trim (studentId s)) students) studentUserNames
             studentNameToUserName testSheet of
        None \<Rightarrow> collectStats sheets students studentUserNames studentNameToUserName rest
      | Some t \<Rightarrow>
          statOfTally testSheet students t
          # collectStats sheets students studentUserNames studentNameToUserName rest)"

subsection \<open>The school\<close>

record schoolStats =
  statsSchoolId :: string
  schoolTotalStudents :: nat
  avgAttendance :: rat
  overallAvgScore :: rat
  testStats :: "testStat list"

datatype statsResult =
  StatsError (errorText: string) (errorDetails: "string option")
| Stats (statsOf: schoolStats)

text \<open>\<^verbatim>\<open>testStats.reduce((sum, t) => sum + f(t), 0) / testStats.length || 0\<close>.\<close>

definition meanOrZero :: "rat list \<Rightarrow> rat" where
  "meanOrZero xs = (if xs = [] then 0 else foldl (+) 0 xs / of_nat (length xs))"

text \<open>
  The first argument is \<open>None\<close> when the client of the spreadsheet service or the
  spreadsheet identifier is missing. Reading the header of an empty Mapping sheet throws,
  and the error is caught at the end of the function; its message is the engine's, so the
  model keeps only the prefix that the function writes.
\<close>

definition getSchoolStats :: "spreadsheet option \<Rightarrow> string \<Rightarrow> statsResult" where
  "getSchoolStats client sch =
     (case client of
        None \<Rightarrow>
          StatsError ''Google Sheets API not initialized''
            (Some ''The server may not be properly configured with Google Sheets credentials.'')
      | Some sheets \<Rightarrow>
          if sch = [] then StatsError ''School ID is required'' None
          else (let students = getStudentsBySchool sheets sch
                in if students = []
                   then StatsError (notFoundError sch)
                          (Some (notFoundDetails (availableSchoolIds sheets)))
                   else (case getSheetNames sheets of
                           Inl message \<Rightarrow>
                             StatsError (''Failed to fetch sheet names: '' @ message)
                               (Some ''This could be due to permission issues or the spreadsheet not being accessible.'')
                         | Inr allSheets \<Rightarrow>
                             (case readSheet sheets ''Mapping'' of
                                [] \<Rightarrow> StatsError ''Unexpected error: '' None
                              | header # dataRows \<Rightarrow>
                                  (case schoolUserNames header dataRows sch of
                                     (studentUserNames, studentNameToUserName) \<Rightarrow>
                                       (let stats = collectStats sheets students studentUserNames
                                                      studentNameToUserName
                                                      (filter isTestSheet allSheets)
                                        in Stats
                                             \<lparr>statsSchoolId = sch,
                                              schoolTotalStudents = length students,
                                              avgAttendance =
                                                round2 (meanOrZero (map attendancePercent stats)),
                                              overallAvgScore =
                                                round2 (meanOrZero (map avgScore stats)),
                                              testStats = stats\<rparr>))))))"

section \<open>The spreadsheet of the setup guide\<close>

text \<open>The Mapping sheet and the three test sheets that the setup guide gives as its
  complete example, and a Config sheet, which is no test sheet.\<close>

definition readmeMaster :: grid where
  "readmeMaster =
     [[''School ID'', ''Student ID''],
      [''SCHOOL001'', ''STU001''],
      [''SCHOOL001'', ''STU002''],
      [''SCHOOL002'', ''STU003'']]"

definition readmeSheets :: spreadsheet where
  "readmeSheets =
     \<lparr>titles = Inr [''Mapping'', ''Config'', ''Aptitude Test'', ''Verbal Test'', ''Math Test''],
      rowsOf = (\<lambda>n. if n = ''Mapping'' then readmeMaster
                    else if n = ''Aptitude Test''
                    then [[''Student ID'', ''Score'', ''Total Marks'', ''Percentage'', ''Grade''],
                          [''STU001'', ''85'', ''100'', ''85%'', ''A''],
                          [''STU002'', ''72'', ''100'', ''72%'', ''B'']]
                    else if n = ''Verbal Test''
                    then [[''Student ID'', ''Score'', ''Total Marks'', ''Percentage'', ''Grade''],
                          [''STU001'', ''90'', ''100'', ''90%'', ''A+''],
                          [''STU002'', ''88'', ''100'', ''88%'', ''A'']]
                    else if n = ''Math Test''
                    then [[''Student ID'', ''Score'', ''Total Marks'', ''Percentage'', ''Grade''],
                          [''STU001'', ''78'', ''100'', ''78%'', ''B+'']]
                    else if n = ''Config''
                    then [[''Key'', ''Value''], [''Term'', ''2024'']]
                    else [])\<rparr>"

text \<open>A spreadsheet of the other shape that the service reads: a Mapping sheet with user
  names and OpenGrad school codes, and test sheets with a learner details column.\<close>

definition openGradMapping :: grid where
  "openGradMapping =
     [[''UserName'', ''Student Name'', ''School Name'', ''OpenGrad School Code'', ''UDSIE Code'',
       ''EMIS_ID''],
      [''TN101'', ''Asha'', ''North High'', ''OG01'', ''U1'', ''E1''],
      [''TN102'', ''Bala'', ''North High'', ''OG01'', ''U1'', ''E2''],
      [''TN201'', ''Chitra'', ''South High'', ''OG02'', ''U2'', ''E3'']]"

definition openGradQuiz :: grid where
  "openGradQuiz =
     [[''Learner Details'', ''Score'', ''School Name''],
      [''TN101@username.com'', ''40''],
      [''TN102@username.com'', ''40''],
      [''TN201@username.com'', ''30''],
      [''TN201@username.com'', ''35'']]"

definition openGradRetest :: grid where
  "openGradRetest =
     [[''Learner Details'', ''Score''],
      [''TN101 '', ''7'']]"

definition openGradSheets :: spreadsheet where
  "openGradSheets =
     \<lparr>titles = Inr [''Mapping'', ''Quiz'', ''Retest''],
      rowsOf = (\<lambda>n. if n = ''Mapping'' then openGradMapping
                    else if n = ''Quiz'' then openGradQuiz
                    else if n = ''Retest'' then openGradRetest
                    else [])\<rparr>"

section \<open>The comparison of the specification\<close>

text \<open>
  The three comparisons that the specification names for a cell of a test sheet and a
  student id, written from its words: the cell is the student id, or the student id occurs
  in the cell, or the key extracted from the cell is the student id.
\<close>

definition threeWayMatch :: "string \<Rightarrow> string \<Rightarrow> bool" where
  "threeWayMatch c sid =
     (c = sid \<or> strIncludes c sid \<or> extractUsernameFromLearnerDetails (Some c) = Some sid)"

section \<open>Properties of the helpers\<close>

lemma findIndex_None_iff: "findIndex p xs = None \<longleftrightarrow> (\<forall>x\<in>set xs. \<not> p x)"
  by (induction xs) auto

lemma findIndex_SomeD:
  "findIndex p xs = Some i \<Longrightarrow> i < length xs \<and> p (xs ! i) \<and> (\<forall>j<i. \<not> p (xs ! j))"
proof (induction xs arbitrary: i)
  case Nil
  then show ?case by simp
next
  case (Cons x xs)
  show ?case
  proof (cases "p x")
    case True
    with Cons.prems show ?thesis by simp
  next
    case False
    with Cons.prems obtain k where k: "findIndex p xs = Some k" "i = Suc k"
      by auto
    from Cons.IH [OF k(1)] False k(2) show ?thesis
      by (auto simp: nth_Cons split: nat.splits)
  qed
qed

lemma findIndex_append:
  "\<forall>x\<in>set pre. \<not> p x \<Longrightarrow> p x \<Longrightarrow> findIndex p (pre @ x # post) = Some (length pre)"
  by (induction pre) auto

lemma readme_header:
  "schoolIdIndexOf [''School ID'', ''Student ID''] = Some 0"
  "studentIdIndexOf [''School ID'', ''Student ID''] = Some 1"
  by (simp_all add: schoolIdIndexOf_def studentIdIndexOf_def isOpenGradSchoolCode_def
      isSchool_def isStudentIdHeader_def toLowerCase_def lowerChar_def isUpper_def)

lemma readme_mapping:
  "readSheet readmeSheets ''Mapping'' =
     [''School ID'', ''Student ID''] #
     [[''SCHOOL001'', ''STU001''], [''SCHOOL001'', ''STU002''], [''SCHOOL002'', ''STU003'']]"
  by (simp add: readSheet_def readmeSheets_def readmeMaster_def)

lemma trim_plain:
  "trim ''STU001'' = ''STU001''" "trim ''STU002'' = ''STU002''" "trim ''STU003'' = ''STU003''"
  "trim ''SCHOOL001'' = ''SCHOOL001''" "trim ''SCHOOL002'' = ''SCHOOL002''"
  by (simp_all add: trim_def isWhiteSpace_def)

section \<open>The user name of a learner details cell\<close>

text \<open>
  Claim C2, as the code has it. An absent cell and the empty string give no user name
  (\<^verbatim>\<open>null\<close>, not the empty string). For any other text the result is a string: the
  trimmed text when it has no \<open>@\<close>, and the part of the trimmed text before its first
  \<open>@\<close> otherwise. The two examples of the specification with a non-empty argument hold.
\<close>

theorem extractUsername_cases:
  "extractUsernameFromLearnerDetails None = None \<and>
   extractUsernameFromLearnerDetails (Some []) = None \<and>
   (s \<noteq> [] \<and> CHR ''@'' \<notin> set (trim s) \<longrightarrow>
      extractUsernameFromLearnerDetails (Some s) = Some (trim s)) \<and>
   (s \<noteq> [] \<and> trim s = pre @ CHR ''@'' # post \<and> CHR ''@'' \<notin> set pre \<longrightarrow>
      extractUsernameFromLearnerDetails (Some s) = Some pre) \<and>
   extractUsernameFromLearnerDetails (Some ''TN1015257176@username.com'') = Some ''TN1015257176'' \<and>
   extractUsernameFromLearnerDetails (Some ''PLAINID'') = Some ''PLAINID''"
proof -
  have none: "s \<noteq> [] \<and> CHR ''@'' \<notin> set (trim s) \<longrightarrow>
      extractUsernameFromLearnerDetails (Some s) = Some (trim s)"
  proof
    assume a: "s \<noteq> [] \<and> CHR ''@'' \<notin> set (trim s)"
    then have "indexOf (trim s) (CHR ''@'') = None"
      unfolding indexOf_def by (auto simp: findIndex_None_iff)
    with a show "extractUsernameFromLearnerDetails (Some s) = Some (trim s)"
      by (simp add: extractUsernameFromLearnerDetails_def)
  qed
  have some: "s \<noteq> [] \<and> trim s = pre @ CHR ''@'' # post \<and> CHR ''@'' \<notin> set pre \<longrightarrow>
      extractUsernameFromLearnerDetails (Some s) = Some pre"
  proof
    assume a: "s \<noteq> [] \<and> trim s = pre @ CHR ''@'' # post \<and> CHR ''@'' \<notin> set pre"
    then have "\<forall>x\<in>set pre. \<not> x = CHR ''@''"
      by auto
    then have "findIndex (\<lambda>x. x = CHR ''@'') (pre @ CHR ''@'' # post) = Some (length pre)"
      by (rule findIndex_append) simp
    with a have "indexOf (trim s) (CHR ''@'') = Some (length pre)"
      unfolding indexOf_def by simp
    with a show "extractUsernameFromLearnerDetails (Some s) = Some pre"
      by (simp add: extractUsernameFromLearnerDetails_def)
  qed
  have ex1: "extractUsernameFromLearnerDetails (Some ''TN1015257176@username.com'') = Some ''TN1015257176''"
    by (simp add: extractUsernameFromLearnerDetails_def trim_def isWhiteSpace_def indexOf_def)
  have ex2: "extractUsernameFromLearnerDetails (Some ''PLAINID'') = Some ''PLAINID''"
    by (simp add: extractUsernameFromLearnerDetails_def trim_def isWhiteSpace_def indexOf_def)
  show ?thesis
    using none some ex1 ex2 by (simp add: extractUsernameFromLearnerDetails_def)
qed

text \<open>The theorem at a cell with spaces around it and two \<open>@\<close>, and at one with none.\<close>

theorem extractUsername_cases_witness:
  "extractUsernameFromLearnerDetails (Some '' id7@mail@x '') = Some ''id7'' \<and>
   extractUsernameFromLearnerDetails (Some '' id7 '') = Some ''id7''"
proof -
  have t1: "trim '' id7@mail@x '' = ''id7'' @ CHR ''@'' # ''mail@x''"
    by (simp add: trim_def isWhiteSpace_def)
  have t2: "trim '' id7 '' = ''id7''"
    by (simp add: trim_def isWhiteSpace_def)
  from extractUsername_cases [of "'' id7@mail@x ''" "''id7''" "''mail@x''"] t1
  have a: "extractUsernameFromLearnerDetails (Some '' id7@mail@x '') = Some ''id7''"
    by simp
  from extractUsername_cases [of "'' id7 ''" "[]" "[]"] t2
  have b: "extractUsernameFromLearnerDetails (Some '' id7 '') = Some ''id7''"
    by simp
  from a b show ?thesis by simp
qed

text \<open>The third example of the specification fails: the empty string gives \<^verbatim>\<open>null\<close>.\<close>

theorem extractUsername_empty_counterexample:
  "extractUsernameFromLearnerDetails (Some []) \<noteq> Some []"
  by (simp add: extractUsernameFromLearnerDetails_def)

section \<open>Finding a student in the Mapping sheet\<close>

lemma scanById_find:
  "scanById sc st sid rs =
     (case find (\<lambda>r. cellTrim r st = Some sid) rs of
        None \<Rightarrow> None
      | Some r \<Rightarrow> Some \<lparr>studentId = cellOrEmpty r st, schoolId = cell r sc\<rparr>)"
  by (induction rs) (auto simp: cellTrim_def cellOrEmpty_def split: option.splits)

lemma scanInMaster_find:
  "scanInMaster sc st sid sch rs =
     (case find (\<lambda>r. cellTrim r st = Some sid \<and> cellTrim r sc = Some sch) rs of
        None \<Rightarrow> None
      | Some r \<Rightarrow> Some \<lparr>studentId = cellOrEmpty r st, schoolId = cell r sc\<rparr>)"
  by (induction rs) (auto simp: cellTrim_def cellOrEmpty_def split: option.splits)

text \<open>
  Claim C6. With a school id, the result is the record of the first data row whose trimmed
  student cell is the student id and whose trimmed school cell is the school id (equality
  of strings, so the case of the letters counts), and no record when there is no such row.
  Without a school id, it is the record of the first data row whose trimmed student cell is
  the student id. There is no record either when the sheet is empty or its header has no
  school or no student column. \<open>find\<close> returns the first element of a list that satisfies a
  predicate.
\<close>

theorem findInMaster_first_match:
  "(sch \<noteq> [] \<longrightarrow>
      findInMaster sheets sid (Some sch) =
        (case readSheet sheets ''Mapping'' of
           [] \<Rightarrow> None
         | header # dataRows \<Rightarrow>
             (case (schoolIdIndexOf header, studentIdIndexOf header) of
                (Some sc, Some st) \<Rightarrow>
                  (case find (\<lambda>r. cellTrim r st = Some sid \<and> cellTrim r sc = Some sch) dataRows of
                     None \<Rightarrow> None
                   | Some r \<Rightarrow> Some \<lparr>studentId = cellOrEmpty r st, schoolId = cell r sc\<rparr>)
              | _ \<Rightarrow> None))) \<and>
   findInMaster sheets sid None =
     (case readSheet sheets ''Mapping'' of
        [] \<Rightarrow> None
      | header # dataRows \<Rightarrow>
          (case (schoolIdIndexOf header, studentIdIndexOf header) of
             (Some sc, Some st) \<Rightarrow>
               (case find (\<lambda>r. cellTrim r st = Some sid) dataRows of
                  None \<Rightarrow> None
                | Some r \<Rightarrow> Some \<lparr>studentId = cellOrEmpty r st, schoolId = cell r sc\<rparr>)
           | _ \<Rightarrow> None))"
  by (simp add: findInMaster_def findStudentInMaster_def findStudentById_def
      scanById_find scanInMaster_find split: list.splits option.splits)

text \<open>The example of the specification: the Mapping sheet of the setup guide.\<close>

theorem findInMaster_first_match_witness:
  "findInMaster readmeSheets ''STU001'' (Some ''SCHOOL001'') =
     Some \<lparr>studentId = ''STU001'', schoolId = Some ''SCHOOL001''\<rparr> \<and>
   findInMaster readmeSheets ''STU001'' (Some ''SCHOOL002'') = None \<and>
   findInMaster readmeSheets ''STU001'' None =
     Some \<lparr>studentId = ''STU001'', schoolId = Some ''SCHOOL001''\<rparr>"
proof -
  have a: "findInMaster readmeSheets ''STU001'' (Some ''SCHOOL001'') =
     Some \<lparr>studentId = ''STU001'', schoolId = Some ''SCHOOL001''\<rparr>"
    using findInMaster_first_match [of "''SCHOOL001''" readmeSheets "''STU001''"]
    by (simp add: readme_mapping readme_header trim_plain cellTrim_def cell_def cellOrEmpty_def)
  have b: "findInMaster readmeSheets ''STU001'' (Some ''SCHOOL002'') = None"
    using findInMaster_first_match [of "''SCHOOL002''" readmeSheets "''STU001''"]
    by (simp add: readme_mapping readme_header trim_plain cellTrim_def cell_def cellOrEmpty_def)
  have c: "findInMaster readmeSheets ''STU001'' None =
     Some \<lparr>studentId = ''STU001'', schoolId = Some ''SCHOOL001''\<rparr>"
    using findInMaster_first_match [of "[]" readmeSheets "''STU001''"]
    by (simp add: readme_mapping readme_header trim_plain cellTrim_def cell_def cellOrEmpty_def)
  from a b c show ?thesis by simp
qed

section \<open>The tests of a student\<close>

lemma checkAttendance_map:
  "checkAttendance sheets sid ns =
     map (\<lambda>n. \<lparr>name = n,
                status = (if findStudentInTestSheet sheets sid n None = None
                          then ''Absent'' else ''Attended''),
                hasData = (findStudentInTestSheet sheets sid n None \<noteq> None)\<rparr>) ns"
  by (induction ns) (auto split: option.splits)

text \<open>
  Claim C7. For a student found in the Mapping sheet and a list of sheet names, the test
  sheets are the names other than "mapping" and "config" (whatever the case of their
  letters), and the result has one entry for each of them, in the order of the list: the
  name, and "Attended" with data or "Absent" without, as the student is or is not found in
  that sheet. No entry is left out after an absence. When the student is in no test sheet,
  the list is as long as the list of test sheets and every entry is "Absent" without data.
\<close>

theorem getStudentTests_entries:
  assumes "findInMaster sheets sid sch = Some st"
    and "getSheetNames sheets = Inr allSheets"
    and "testSheets = filter (\<lambda>n. toLowerCase n \<noteq> ''mapping'' \<and> toLowerCase n \<noteq> ''config'') allSheets"
  shows "\<exists>res. getStudentTests sheets sid sch = Inr res \<and>
           error res = None \<and> foundStudent res = Some st \<and>
           tests res =
             map (\<lambda>n. \<lparr>name = n,
                        status = (if findStudentInTestSheet sheets sid n None = None
                                  then ''Absent'' else ''Attended''),
                        hasData = (findStudentInTestSheet sheets sid n None \<noteq> None)\<rparr>)
               testSheets \<and>
           ((\<forall>n\<in>set testSheets. findStudentInTestSheet sheets sid n None = None) \<longrightarrow>
              length (tests res) = length testSheets \<and>
              (\<forall>e\<in>set (tests res). status e = ''Absent'' \<and> \<not> hasData e))"
proof -
  have f: "filter isTestSheet allSheets = testSheets"
    unfolding assms(3) by (rule filter_cong) (simp_all add: isTestSheet_def)
  let ?res = "\<lparr>error = None, foundStudent = Some st,
               tests = checkAttendance sheets sid testSheets\<rparr>"
  have r: "getStudentTests sheets sid sch = Inr ?res"
    using assms(1,2) f by (simp add: getStudentTests_def)
  have absent: "(\<forall>n\<in>set testSheets. findStudentInTestSheet sheets sid n None = None) \<longrightarrow>
      length (tests ?res) = length testSheets \<and>
      (\<forall>e\<in>set (tests ?res). status e = ''Absent'' \<and> \<not> hasData e)"
    by (auto simp: checkAttendance_map)
  from r absent show ?thesis
    by (intro exI [of _ ?res]) (simp add: checkAttendance_map)
qed

section \<open>The enriched test sheet\<close>

lemma pushIfAbsent_filter:
  "pushIfAbsent col h = h @ filter (\<lambda>c. c \<notin> set h) [col]"
  by (simp add: pushIfAbsent_def)

lemma enrichHeader_filter:
  "enrichHeader header =
     header @ filter (\<lambda>c. c \<notin> set header)
                [''School Name'', ''OpenGrad School Code'', ''UDSIE Code'', ''EMIS ID'']"
  by (simp add: enrichHeader_def pushIfAbsent_def)

text \<open>
  Claim C9, as the code has it. The result has as many rows as the sheet. When the header
  has a learner details column, the new header is the header of the sheet followed by
  those of the four columns School Name, OpenGrad School Code, UDSIE Code and EMIS ID that
  it does not already have, in this order. When the header has no learner details column,
  the sheet is returned as it is, with no column added.
\<close>

theorem enrichTestSheet_shape:
  "length (enrichTestSheet sheets t) = length (readSheet sheets t) \<and>
   (readSheet sheets t = header # dataRows \<and> findIndex isLearnerDetails header \<noteq> None \<longrightarrow>
      (\<exists>rows'. enrichTestSheet sheets t =
         (header @ filter (\<lambda>c. c \<notin> set header)
                     [''School Name'', ''OpenGrad School Code'', ''UDSIE Code'', ''EMIS ID''])
         # rows' \<and> length rows' = length dataRows)) \<and>
   (readSheet sheets t = header # dataRows \<and> findIndex isLearnerDetails header = None \<longrightarrow>
      enrichTestSheet sheets t = header # dataRows)"
  by (auto simp: enrichTestSheet_def enrichHeader_filter split: list.splits option.splits)


section \<open>Finding a student in a test sheet\<close>

lemma strIncludes_sublist: "strIncludes hay needle \<longleftrightarrow> sublist needle hay"
  by (induction hay) (auto simp: sublist_Cons_right)

lemma sublist_trim: "sublist (trim s) s"
proof -
  have "prefix (trim s) (dropWhile isWhiteSpace s)"
    unfolding trim_def
    by (metis suffix_dropWhile suffix_to_prefix rev_rev_ident)
  then have "sublist (trim s) (dropWhile isWhiteSpace s)"
    by (rule prefix_imp_sublist)
  moreover have "sublist (dropWhile isWhiteSpace s) s"
    by (rule suffix_imp_sublist) (rule suffix_dropWhile)
  ultimately show ?thesis
    by (rule sublist_order.order_trans)
qed

lemma extractUsername_sublist:
  assumes "extractUsernameFromLearnerDetails (Some c) = Some k"
  shows "sublist k c"
proof -
  from assms have "k = trim c \<or> (\<exists>n. k = take n (trim c))"
    by (auto simp: extractUsernameFromLearnerDetails_def Let_def split: if_splits option.splits)
  then have "sublist k (trim c)"
    by (auto intro: prefix_imp_sublist take_is_prefix)
  then show ?thesis
    using sublist_trim by (rule sublist_order.order_trans)
qed

lemma threeWayMatch_includes: "threeWayMatch c sid \<longleftrightarrow> strIncludes c sid"
  by (auto simp: threeWayMatch_def strIncludes_sublist dest: extractUsername_sublist)

lemma matches_learner:
  "matches (Some c) (extractUsernameFromLearnerDetails (Some c)) sid \<longleftrightarrow>
     c \<noteq> [] \<and> threeWayMatch c sid"
  by (simp add: matches_def threeWayMatch_def)

lemma matches_student:
  "matches (Some c) (Some c) sid \<longleftrightarrow> c \<noteq> [] \<and> threeWayMatch c sid"
  by (auto simp: matches_def threeWayMatch_includes strIncludes_sublist)

lemma scanTestSheet_learner:
  "scanTestSheet header (Some li) si lookupMap sid rs =
     (case find (\<lambda>r. case cellTrim r li of
                        None \<Rightarrow> False
                      | Some c \<Rightarrow> c \<noteq> [] \<and> threeWayMatch c sid) rs of
        None \<Rightarrow> None
      | Some r \<Rightarrow>
          Some (enrichFields lookupMap (extractUsernameFromLearnerDetails (cellTrim r li))
                  (rowFields header r)))"
proof (induction rs)
  case Nil
  show ?case by simp
next
  case (Cons r rs)
  show ?case
  proof (cases "cellTrim r li")
    case None
    with Cons show ?thesis
      by (simp add: rowIdentity_def matches_def Let_def)
  next
    case (Some c)
    with Cons show ?thesis
      by (simp add: rowIdentity_def matches_learner Let_def)
  qed
qed

lemma scanTestSheet_student:
  "scanTestSheet header None (Some si) lookupMap sid rs =
     (case find (\<lambda>r. case cellTrim r si of
                        None \<Rightarrow> False
                      | Some c \<Rightarrow> c \<noteq> [] \<and> threeWayMatch c sid) rs of
        None \<Rightarrow> None
      | Some r \<Rightarrow> Some (enrichFields lookupMap (cellTrim r si) (rowFields header r)))"
proof (induction rs)
  case Nil
  show ?case by simp
next
  case (Cons r rs)
  show ?case
  proof (cases "cellTrim r si")
    case None
    with Cons show ?thesis
      by (simp add: rowIdentity_def matches_def Let_def)
  next
    case (Some c)
    with Cons show ?thesis
      by (simp add: rowIdentity_def matches_student Let_def)
  qed
qed

text \<open>
  Claim C3, as the code has it. The cell that is compared is the trimmed cell of the learner
  details column, or of the first column with "student" when the header has no learner
  details column. The result is made from the first data row whose trimmed cell is not
  empty and passes one of the three comparisons of the specification with the student id:
  the fields of that row under their headers, with the data of the Mapping sheet added when
  the lookup map has the user name of the row. There is no result when no row is such a
  row, when the sheet is empty, and when the header has neither column.
\<close>

theorem findStudentInTestSheet_first_match:
  assumes "lookupMap = (case given of None \<Rightarrow> buildStudentLookupMap sheets | Some m \<Rightarrow> m)"
  shows
  "(readSheet sheets t = [] \<longrightarrow> findStudentInTestSheet sheets sid t given = None) \<and>
   (readSheet sheets t = header # dataRows \<and> findIndex isLearnerDetails header = Some li \<longrightarrow>
      findStudentInTestSheet sheets sid t given =
        (case find (\<lambda>r. case cellTrim r li of
                           None \<Rightarrow> False
                         | Some c \<Rightarrow> c \<noteq> [] \<and> threeWayMatch c sid) dataRows of
           None \<Rightarrow> None
         | Some r \<Rightarrow>
             Some (enrichFields lookupMap (extractUsernameFromLearnerDetails (cellTrim r li))
                     (rowFields header r)))) \<and>
   (readSheet sheets t = header # dataRows \<and> findIndex isLearnerDetails header = None \<and>
    findIndex isStudent header = Some si \<longrightarrow>
      findStudentInTestSheet sheets sid t given =
        (case find (\<lambda>r. case cellTrim r si of
                           None \<Rightarrow> False
                         | Some c \<Rightarrow> c \<noteq> [] \<and> threeWayMatch c sid) dataRows of
           None \<Rightarrow> None
         | Some r \<Rightarrow> Some (enrichFields lookupMap (cellTrim r si) (rowFields header r)))) \<and>
   (readSheet sheets t = header # dataRows \<and> findIndex isLearnerDetails header = None \<and>
    findIndex isStudent header = None \<longrightarrow>
      findStudentInTestSheet sheets sid t given = None)"
  unfolding assms
  by (simp add: findStudentInTestSheet_def scanTestSheet_learner scanTestSheet_student)



text \<open>Evaluation on the example spreadsheets.\<close>

lemma openGrad_read:
  "readSheet openGradSheets ''Mapping'' = openGradMapping"
  "readSheet openGradSheets ''Quiz'' = openGradQuiz"
  "readSheet openGradSheets ''Retest'' = openGradRetest"
  by (simp_all add: readSheet_def openGradSheets_def)

text \<open>The second row of the quiz is the first that has the student id \<open>TN102\<close>; the
  second row of the aptitude test, which has no learner details column, is the first with
  \<open>STU002\<close>; a sheet that cannot be read and the Config sheet give no result.\<close>

theorem findStudentInTestSheet_first_match_witness:
  "findStudentInTestSheet openGradSheets ''TN102'' ''Quiz'' None =
     Some [(''Learner Details'', Text ''TN102@username.com''), (''Score'', Text ''40''),
           (''School Name'', Text []),
           (''_enriched'',
            Enriched \<lparr>enrichedSchoolName = ''North High'', openGradSchoolCode = ''OG01'',
                       enrichedUdsieCode = ''U1'', enrichedEmisId = ''E2''\<rparr>)] \<and>
   findStudentInTestSheet readmeSheets ''STU002'' ''Aptitude Test'' None =
     Some [(''Student ID'', Text ''STU002''), (''Score'', Text ''72''),
           (''Total Marks'', Text ''100''), (''Percentage'', Text ''72%''),
           (''Grade'', Text ''B'')] \<and>
   findStudentInTestSheet openGradSheets ''TN102'' ''Final'' None = None \<and>
   findStudentInTestSheet readmeSheets ''STU002'' ''Config'' None = None"
proof -
  let ?header = "[''Learner Details'', ''Score'', ''School Name'']"
  let ?rows = "[[''TN101@username.com'', ''40''], [''TN102@username.com'', ''40''],
       [''TN201@username.com'', ''30''], [''TN201@username.com'', ''35'']]"
  have r: "readSheet openGradSheets ''Quiz'' = ?header # ?rows"
    by (simp add: openGrad_read openGradQuiz_def)
  have h: "findIndex isLearnerDetails ?header = Some 0"
    by code_simp
  have f: "find (\<lambda>r. case cellTrim r 0 of
                        None \<Rightarrow> False
                      | Some c \<Rightarrow> c \<noteq> [] \<and> threeWayMatch c ''TN102'') ?rows =
           Some [''TN102@username.com'', ''40'']"
    by code_simp
  have e: "enrichFields (buildStudentLookupMap openGradSheets)
             (extractUsernameFromLearnerDetails (cellTrim [''TN102@username.com'', ''40''] 0))
             (rowFields ?header [''TN102@username.com'', ''40'']) =
           [(''Learner Details'', Text ''TN102@username.com''), (''Score'', Text ''40''),
            (''School Name'', Text []),
            (''_enriched'',
             Enriched \<lparr>enrichedSchoolName = ''North High'', openGradSchoolCode = ''OG01'',
                        enrichedUdsieCode = ''U1'', enrichedEmisId = ''E2''\<rparr>)]"
    by code_simp
  from findStudentInTestSheet_first_match
    [where given = None and sheets = openGradSheets and t = "''Quiz''" and sid = "''TN102''"
       and header = ?header and dataRows = ?rows and li = 0, OF refl]
    r h
  have learner: "findStudentInTestSheet openGradSheets ''TN102'' ''Quiz'' None =
     Some [(''Learner Details'', Text ''TN102@username.com''), (''Score'', Text ''40''),
           (''School Name'', Text []),
           (''_enriched'',
            Enriched \<lparr>enrichedSchoolName = ''North High'', openGradSchoolCode = ''OG01'',
                       enrichedUdsieCode = ''U1'', enrichedEmisId = ''E2''\<rparr>)]"
    by (simp only: f e option.simps simp_thms)
  let ?header2 = "[''Student ID'', ''Score'', ''Total Marks'', ''Percentage'', ''Grade'']"
  let ?rows2 = "[[''STU001'', ''85'', ''100'', ''85%'', ''A''],
                 [''STU002'', ''72'', ''100'', ''72%'', ''B'']]"
  have r2: "readSheet readmeSheets ''Aptitude Test'' = ?header2 # ?rows2"
    by (simp add: readSheet_def readmeSheets_def)
  have h2: "findIndex isLearnerDetails ?header2 = None" "findIndex isStudent ?header2 = Some 0"
    by code_simp+
  have f2: "find (\<lambda>r. case cellTrim r 0 of
                        None \<Rightarrow> False
                      | Some c \<Rightarrow> c \<noteq> [] \<and> threeWayMatch c ''STU002'') ?rows2 =
           Some [''STU002'', ''72'', ''100'', ''72%'', ''B'']"
    by code_simp
  have e2: "enrichFields (buildStudentLookupMap readmeSheets)
              (cellTrim [''STU002'', ''72'', ''100'', ''72%'', ''B''] 0)
              (rowFields ?header2 [''STU002'', ''72'', ''100'', ''72%'', ''B'']) =
            [(''Student ID'', Text ''STU002''), (''Score'', Text ''72''),
             (''Total Marks'', Text ''100''), (''Percentage'', Text ''72%''),
             (''Grade'', Text ''B'')]"
    by code_simp
  from findStudentInTestSheet_first_match
    [where given = None and sheets = readmeSheets and t = "''Aptitude Test''"
       and sid = "''STU002''" and header = ?header2 and dataRows = ?rows2 and si = 0, OF refl]
    r2 h2
  have student: "findStudentInTestSheet readmeSheets ''STU002'' ''Aptitude Test'' None =
     Some [(''Student ID'', Text ''STU002''), (''Score'', Text ''72''),
           (''Total Marks'', Text ''100''), (''Percentage'', Text ''72%''),
           (''Grade'', Text ''B'')]"
    by (simp only: f2 e2 option.simps simp_thms)
  have r3: "readSheet openGradSheets ''Final'' = []"
    by (simp add: readSheet_def openGradSheets_def)
  from findStudentInTestSheet_first_match
    [where given = None and sheets = openGradSheets and t = "''Final''" and sid = "''TN102''",
      OF refl]
    r3
  have unread: "findStudentInTestSheet openGradSheets ''TN102'' ''Final'' None = None"
    by simp
  have r4: "readSheet readmeSheets ''Config'' = [''Key'', ''Value''] # [[''Term'', ''2024'']]"
    by (simp add: readSheet_def readmeSheets_def)
  have h4: "findIndex isLearnerDetails [''Key'', ''Value''] = None"
    "findIndex isStudent [''Key'', ''Value''] = None"
    by code_simp+
  from findStudentInTestSheet_first_match
    [where given = None and sheets = readmeSheets and t = "''Config''" and sid = "''STU002''"
       and header = "[''Key'', ''Value'']" and dataRows = "[[''Term'', ''2024'']]", OF refl]
    r4 h4
  have neither: "findStudentInTestSheet readmeSheets ''STU002'' ''Config'' None = None"
    by simp
  from learner student unread neither show ?thesis
    by (simp only: simp_thms)
qed

text \<open>The only row of the retest has the cell \<open>TN101\<close> followed by a space. The cell as it is
  in the sheet equals the student id \<open>TN101\<close> followed by a space, and yet the row is not
  found: the trimmed cell neither is nor contains that id.\<close>

theorem findStudentInTestSheet_raw_counterexample:
  "readSheet openGradSheets ''Retest'' = [[''Learner Details'', ''Score''], [''TN101 '', ''7'']] \<and>
   findStudentInTestSheet openGradSheets ''TN101 '' ''Retest'' None = None"
  by code_simp

lemma readme_titles:
  "getSheetNames readmeSheets =
     Inr [''Mapping'', ''Config'', ''Aptitude Test'', ''Verbal Test'', ''Math Test'']"
  by (simp add: getSheetNames_def readmeSheets_def)

lemma readme_tests:
  "filter (\<lambda>n. toLowerCase n \<noteq> ''mapping'' \<and> toLowerCase n \<noteq> ''config'')
     [''Mapping'', ''Config'', ''Aptitude Test'', ''Verbal Test'', ''Math Test''] =
   [''Aptitude Test'', ''Verbal Test'', ''Math Test'']"
  by code_simp

lemma readme_STU003_absent:
  "findStudentInTestSheet readmeSheets ''STU003'' ''Aptitude Test'' None = None"
  "findStudentInTestSheet readmeSheets ''STU003'' ''Verbal Test'' None = None"
  "findStudentInTestSheet readmeSheets ''STU003'' ''Math Test'' None = None"
  by code_simp+

lemma readme_STU003:
  "findInMaster readmeSheets ''STU003'' None =
     Some \<lparr>studentId = ''STU003'', schoolId = Some ''SCHOOL002''\<rparr>"
  by code_simp

text \<open>The third student of the setup guide sat none of its three tests.\<close>

theorem getStudentTests_entries_witness:
  "\<exists>res. getStudentTests readmeSheets ''STU003'' None = Inr res \<and>
         tests res =
           [\<lparr>name = ''Aptitude Test'', status = ''Absent'', hasData = False\<rparr>,
            \<lparr>name = ''Verbal Test'', status = ''Absent'', hasData = False\<rparr>,
            \<lparr>name = ''Math Test'', status = ''Absent'', hasData = False\<rparr>] \<and>
         length (tests res) = 3"
  using getStudentTests_entries [OF readme_STU003 readme_titles refl]
  unfolding readme_tests
  by (auto simp: readme_STU003_absent)

text \<open>The quiz has the School Name column already: three headers are added. The aptitude
  test has no learner details column and is returned as it is.\<close>

theorem enrichTestSheet_shape_witness:
  "length (enrichTestSheet openGradSheets ''Quiz'') = 5 \<and>
   (\<exists>rows'. enrichTestSheet openGradSheets ''Quiz'' =
      [''Learner Details'', ''Score'', ''School Name'', ''OpenGrad School Code'', ''UDSIE Code'',
       ''EMIS ID''] # rows' \<and> length rows' = 4) \<and>
   enrichTestSheet readmeSheets ''Aptitude Test'' =
     [[''Student ID'', ''Score'', ''Total Marks'', ''Percentage'', ''Grade''],
      [''STU001'', ''85'', ''100'', ''85%'', ''A''],
      [''STU002'', ''72'', ''100'', ''72%'', ''B'']]"
proof -
  let ?header = "[''Learner Details'', ''Score'', ''School Name'']"
  let ?rows = "[[''TN101@username.com'', ''40''], [''TN102@username.com'', ''40''],
       [''TN201@username.com'', ''30''], [''TN201@username.com'', ''35'']]"
  have r: "readSheet openGradSheets ''Quiz'' = ?header # ?rows"
    by (simp add: openGrad_read openGradQuiz_def)
  have h: "findIndex isLearnerDetails ?header = Some 0"
    by code_simp
  from enrichTestSheet_shape [of openGradSheets "''Quiz''" ?header ?rows] r h
  have quiz: "length (enrichTestSheet openGradSheets ''Quiz'') = 5 \<and>
   (\<exists>rows'. enrichTestSheet openGradSheets ''Quiz'' =
      [''Learner Details'', ''Score'', ''School Name'', ''OpenGrad School Code'', ''UDSIE Code'',
       ''EMIS ID''] # rows' \<and> length rows' = 4)"
    by (auto simp: eval_nat_numeral)
  let ?header2 = "[''Student ID'', ''Score'', ''Total Marks'', ''Percentage'', ''Grade'']"
  let ?rows2 = "[[''STU001'', ''85'', ''100'', ''85%'', ''A''],
                 [''STU002'', ''72'', ''100'', ''72%'', ''B'']]"
  have r2: "readSheet readmeSheets ''Aptitude Test'' = ?header2 # ?rows2"
    by (simp add: readSheet_def readmeSheets_def)
  have h2: "findIndex isLearnerDetails ?header2 = None"
    by code_simp
  from enrichTestSheet_shape [of readmeSheets "''Aptitude Test''" ?header2 ?rows2] r2 h2
  have aptitude: "enrichTestSheet readmeSheets ''Aptitude Test'' = ?header2 # ?rows2"
    by simp
  from quiz aptitude show ?thesis
    by simp
qed

text \<open>The aptitude test of the setup guide has no learner details column, and its header
  stays as it is.\<close>

theorem enrichTestSheet_no_learner_counterexample:
  "hd (enrichTestSheet readmeSheets ''Aptitude Test'') \<noteq>
   hd (readSheet readmeSheets ''Aptitude Test'') @
   [''School Name'', ''OpenGrad School Code'', ''UDSIE Code'', ''EMIS ID'']"
  by code_simp

section \<open>The school that is not found\<close>

lemma collectStudents_none:
  "\<forall>r\<in>set rs. toUpperCase (cellTrimOrEmpty r sc) \<noteq> search \<Longrightarrow>
   collectStudents sc st search rs = []"
  by (induction rs) auto

lemma schoolIdCells_cells:
  "x \<in> set (schoolIdCells sc rs) \<Longrightarrow> \<exists>r\<in>set rs. cellTrimOrEmpty r sc = x"
proof (induction rs)
  case Nil
  then show ?case by simp
next
  case (Cons a rs)
  show ?case
  proof (cases "cell a sc")
    case None
    with Cons show ?thesis by auto
  next
    case (Some c)
    show ?thesis
    proof (cases "c \<noteq> [] \<and> trim c \<noteq> []")
      case True
      with Cons.prems Some have "x = trim c \<or> x \<in> set (schoolIdCells sc rs)"
        by auto
      then show ?thesis
      proof
        assume "x = trim c"
        with Some have "cellTrimOrEmpty a sc = x"
          by (simp add: cellTrimOrEmpty_def cellTrim_def)
        then show ?thesis by auto
      next
        assume "x \<in> set (schoolIdCells sc rs)"
        with Cons.IH show ?thesis by auto
      qed
    next
      case False
      with Cons.prems Some have "x \<in> set (schoolIdCells sc rs)"
        by auto
      with Cons.IH show ?thesis by auto
    qed
  qed
qed

lemma availableSchoolIds_length: "length (availableSchoolIds sheets) \<le> 10"
  by (simp add: availableSchoolIds_def split: list.splits option.splits)

lemma availableSchoolIds_cells:
  assumes "x \<in> set (availableSchoolIds sheets)"
  shows "\<exists>header dataRows sc r. readSheet sheets ''Mapping'' = header # dataRows \<and>
           schoolIdIndexOf header = Some sc \<and> r \<in> set dataRows \<and> cellTrimOrEmpty r sc = x"
proof (cases "readSheet sheets ''Mapping''")
  case Nil
  with assms show ?thesis by (simp add: availableSchoolIds_def)
next
  case (Cons header dataRows)
  show ?thesis
  proof (cases "schoolIdIndexOf header")
    case None
    with assms Cons show ?thesis by (simp add: availableSchoolIds_def)
  next
    case (Some sc)
    with assms Cons have "x \<in> set (take 10 (sort (remdups (schoolIdCells sc dataRows))))"
      by (simp add: availableSchoolIds_def)
    then have "x \<in> set (schoolIdCells sc dataRows)"
      by (auto dest: in_set_takeD)
    then obtain r where "r \<in> set dataRows" "cellTrimOrEmpty r sc = x"
      by (auto dest: schoolIdCells_cells)
    with Cons Some show ?thesis by blast
  qed
qed

text \<open>
  Claim C8, as the code has it. For a school id that is not empty and a Mapping sheet in
  which no data row has that school in its school column (compared trimmed, whatever the
  case of the letters), the result is an error value, not a thrown error. Its error text
  names the school: \<open>School "id" not found or has no students in the Mapping sheet\<close>. Its
  details list the known school identifiers, which are at most 10 and all differ from the
  requested one.
\<close>

theorem getSchoolStats_school_not_found:
  assumes "sch \<noteq> []"
    and "\<forall>header dataRows sc r.
           readSheet sheets ''Mapping'' = header # dataRows \<and>
           schoolIdIndexOf header = Some sc \<and> r \<in> set dataRows \<longrightarrow>
           toUpperCase (cellTrimOrEmpty r sc) \<noteq> toUpperCase (trim sch)"
  shows "getSchoolStats (Some sheets) sch =
           StatsError
             (''School '' @ [CHR 0x22] @ sch @ [CHR 0x22] @
              '' not found or has no students in the Mapping sheet'')
             (Some (notFoundDetails (availableSchoolIds sheets))) \<and>
         length (availableSchoolIds sheets) \<le> 10 \<and>
         (\<forall>x\<in>set (availableSchoolIds sheets). toUpperCase x \<noteq> toUpperCase (trim sch))"
proof -
  have students: "getStudentsBySchool sheets sch = []"
  proof (cases "readSheet sheets ''Mapping''")
    case Nil
    then show ?thesis by (simp add: getStudentsBySchool_def)
  next
    case (Cons header dataRows)
    show ?thesis
    proof (cases "schoolIdIndexOf header")
      case None
      with Cons show ?thesis by (simp add: getStudentsBySchool_def)
    next
      case (Some sc)
      with Cons assms(2)
      have "\<forall>r\<in>set dataRows. toUpperCase (cellTrimOrEmpty r sc) \<noteq> toUpperCase (trim sch)"
        by blast
      then have "collectStudents sc st (toUpperCase (trim sch)) dataRows = []" for st
        by (rule collectStudents_none)
      with Cons Some show ?thesis
        by (simp add: getStudentsBySchool_def split: option.splits)
    qed
  qed
  have others: "\<forall>x\<in>set (availableSchoolIds sheets). toUpperCase x \<noteq> toUpperCase (trim sch)"
  proof
    fix x
    assume "x \<in> set (availableSchoolIds sheets)"
    then obtain header dataRows sc r where
      "readSheet sheets ''Mapping'' = header # dataRows" "schoolIdIndexOf header = Some sc"
      "r \<in> set dataRows" "cellTrimOrEmpty r sc = x"
      using availableSchoolIds_cells by blast
    with assms(2) show "toUpperCase x \<noteq> toUpperCase (trim sch)"
      by blast
  qed
  from assms(1) students have
    "getSchoolStats (Some sheets) sch =
       StatsError (notFoundError sch) (Some (notFoundDetails (availableSchoolIds sheets)))"
    by (simp add: getSchoolStats_def)
  with others show ?thesis
    by (simp add: notFoundError_def availableSchoolIds_length)
qed

text \<open>The setup guide has no school \<open>SCHOOL009\<close>.\<close>

lemma readme_no_SCHOOL009:
  "\<forall>header dataRows sc r.
     readSheet readmeSheets ''Mapping'' = header # dataRows \<and>
     schoolIdIndexOf header = Some sc \<and> r \<in> set dataRows \<longrightarrow>
     toUpperCase (cellTrimOrEmpty r sc) \<noteq> toUpperCase (trim ''SCHOOL009'')"
proof (intro allI impI)
  fix header dataRows sc r
  assume a: "readSheet readmeSheets ''Mapping'' = header # dataRows \<and>
     schoolIdIndexOf header = Some sc \<and> r \<in> set dataRows"
  then have h: "header = [''School ID'', ''Student ID'']"
    and d: "dataRows = [[''SCHOOL001'', ''STU001''], [''SCHOOL001'', ''STU002''],
                        [''SCHOOL002'', ''STU003'']]"
    by (simp_all add: readme_mapping)
  from a h have sc: "sc = 0"
    by (simp add: readme_header)
  have e: "toUpperCase (cellTrimOrEmpty [''SCHOOL001'', ''STU001''] 0) \<noteq> toUpperCase (trim ''SCHOOL009'')"
    "toUpperCase (cellTrimOrEmpty [''SCHOOL001'', ''STU002''] 0) \<noteq> toUpperCase (trim ''SCHOOL009'')"
    "toUpperCase (cellTrimOrEmpty [''SCHOOL002'', ''STU003''] 0) \<noteq> toUpperCase (trim ''SCHOOL009'')"
    by code_simp+
  from a d sc e show "toUpperCase (cellTrimOrEmpty r sc) \<noteq> toUpperCase (trim ''SCHOOL009'')"
    by auto
qed

lemma readme_available: "availableSchoolIds readmeSheets = [''SCHOOL001'', ''SCHOOL002'']"
  by code_simp

theorem getSchoolStats_school_not_found_witness:
  "getSchoolStats (Some readmeSheets) ''SCHOOL009'' =
     StatsError
       (''School '' @ [CHR 0x22] @ ''SCHOOL009'' @ [CHR 0x22] @
        '' not found or has no students in the Mapping sheet'')
       (Some (notFoundDetails [''SCHOOL001'', ''SCHOOL002''])) \<and>
   length [''SCHOOL001'', ''SCHOOL002''] \<le> (10::nat)"
  using getSchoolStats_school_not_found [of "''SCHOOL009''" readmeSheets, OF _ readme_no_SCHOOL009]
  by (simp add: readme_available)

text \<open>The error text is not the text \<open>School not found or has no students\<close> of the
  specification.\<close>

theorem getSchoolStats_error_text_counterexample:
  "getSchoolStats (Some readmeSheets) ''SCHOOL009'' =
     StatsError
       (''School '' @ [CHR 0x22] @ ''SCHOOL009'' @ [CHR 0x22] @
        '' not found or has no students in the Mapping sheet'')
       (Some ''Verify the School ID is correct and exists in the Mapping sheet of your Google Spreadsheet. Available school IDs (first 10): SCHOOL001, SCHOOL002'') \<and>
   errorText (getSchoolStats (Some readmeSheets) ''SCHOOL009'') \<noteq>
     ''School not found or has no students''"
  by code_simp

section \<open>The score of a row\<close>










section \<open>The statistics of a test sheet\<close>



























end
